theory Spec2Isabelle
  imports Main
begin

section \<open>The command line tool of the python-cli template\<close>

text \<open>
  The program is \<^verbatim>\<open>cli.py\<close>: a click group \<^verbatim>\<open>main\<close> with a version option and three
  commands, \<^verbatim>\<open>hello\<close>, \<^verbatim>\<open>info\<close> and \<^verbatim>\<open>list_items\<close>, which write through a rich console.
  The commands are a few lines each; what an invocation does is decided by the two
  libraries the decorators and the console come from. The model therefore has three
  layers: the values of Python the program uses (strings, \<^verbatim>\<open>int()\<close>, \<^verbatim>\<open>str()\<close>), the
  console (markup, emoji codes, lines of the console's width), and click's parsing of the
  argument vector for exactly the options and commands the decorators declare.

  A string is a list of characters with codes below 256. One run of the program is a
  function from the argument vector to an outcome: what was written to standard output
  and to the error stream, the exit status, and the command body that was entered.
\<close>

subsection \<open>Python values\<close>

definition bslash :: char where
  "bslash = CHR 0x5C"

definition newline :: char where
  "newline = CHR 0x0A"

text \<open>\<^verbatim>\<open>str.isspace\<close> on the characters below 256.\<close>

definition py_isspace :: "char \<Rightarrow> bool" where
  "py_isspace c = ((of_char c :: nat) \<in> {9, 10, 11, 12, 13, 28, 29, 30, 31, 32, 133, 160})"

text \<open>\<^verbatim>\<open>str.isalnum\<close> on the characters below 256: digits, letters, and the Latin-1
  letters and numeric signs.\<close>

definition py_isalnum :: "char \<Rightarrow> bool" where
  "py_isalnum c =
     (let n = (of_char c :: nat) in
      (48 \<le> n \<and> n \<le> 57) \<or> (65 \<le> n \<and> n \<le> 90) \<or> (97 \<le> n \<and> n \<le> 122) \<or>
      n \<in> {170, 178, 179, 181, 185, 186, 188, 189, 190} \<or>
      (192 \<le> n \<and> n \<le> 214) \<or> (216 \<le> n \<and> n \<le> 246) \<or> (248 \<le> n \<and> n \<le> 255))"

definition py_strip :: "string \<Rightarrow> string" where
  "py_strip s = rev (dropWhile py_isspace (rev (dropWhile py_isspace s)))"

definition is_digit :: "char \<Rightarrow> bool" where
  "is_digit c = (48 \<le> (of_char c :: nat) \<and> (of_char c :: nat) \<le> 57)"

definition digit_val :: "char \<Rightarrow> nat" where
  "digit_val c = of_char c - 48"

definition digit_char :: "nat \<Rightarrow> char" where
  "digit_char d = char_of (48 + d)"

text \<open>
  \<^verbatim>\<open>int(s)\<close> in base ten. The characters it skips around the literal are fewer than
  \<^verbatim>\<open>str.isspace\<close> accepts: the ASCII white space (codes 9 to 13 and 32) and, of the other
  characters below 256, the next-line and no-break space (133 and 160); the separators
  28 to 31 are not skipped. One sign may come first, and the digits may be grouped by
  single underscores, each between two digits. The interpreter refuses a literal of more
  than 640 digits when it has more digits than the limit \<^verbatim>\<open>lim\<close> set for integer strings
  (4300 unless configured; 0 is no limit). \<^verbatim>\<open>None\<close> is the \<^verbatim>\<open>ValueError\<close>.
\<close>

definition int_space :: "char \<Rightarrow> bool" where
  "int_space c = ((of_char c :: nat) \<in> {9, 10, 11, 12, 13, 32, 133, 160})"

definition int_strip :: "string \<Rightarrow> string" where
  "int_strip s = rev (dropWhile int_space (rev (dropWhile int_space s)))"

definition too_many_digits :: "nat \<Rightarrow> string \<Rightarrow> bool" where
  "too_many_digits lim s =
     (0 < lim \<and> 640 < length (filter is_digit s) \<and> lim < length (filter is_digit s))"

fun digits_acc :: "nat \<Rightarrow> string \<Rightarrow> nat option" where
  "digits_acc a [] = Some a"
| "digits_acc a (c # cs) =
     (if is_digit c then digits_acc (10 * a + digit_val c) cs
      else if c = CHR ''_'' then
        (case cs of
           [] \<Rightarrow> None
         | d # ds \<Rightarrow> if is_digit d then digits_acc (10 * a + digit_val d) ds else None)
      else None)"

definition py_digits :: "nat \<Rightarrow> string \<Rightarrow> nat option" where
  "py_digits lim s =
     (if too_many_digits lim s then None
      else
        (case s of
           [] \<Rightarrow> None
         | c # cs \<Rightarrow> if is_digit c then digits_acc (digit_val c) cs else None))"

definition py_int :: "nat \<Rightarrow> string \<Rightarrow> int option" where
  "py_int lim s =
     (case int_strip s of
        [] \<Rightarrow> None
      | c # cs \<Rightarrow>
          if c = CHR ''-'' then map_option (\<lambda>n. - int n) (py_digits lim cs)
          else if c = CHR ''+'' then map_option int (py_digits lim cs)
          else map_option int (py_digits lim (c # cs)))"

text \<open>\<^verbatim>\<open>str(n)\<close> of an integer: the decimal digits, after a minus sign when negative.\<close>

function str_nat :: "nat \<Rightarrow> string" where
  "str_nat n = (if n < 10 then [digit_char n] else str_nat (n div 10) @ [digit_char (n mod 10)])"
  by pat_completeness auto
termination
  by (relation "measure (\<lambda>n. n)") auto

declare str_nat.simps [simp del]

definition str_int :: "int \<Rightarrow> string" where
  "str_int i = (if i < 0 then CHR ''-'' # str_nat (nat (- i)) else str_nat (nat i))"

subsection \<open>The rich console\<close>

text \<open>
  \<^verbatim>\<open>console.print(markup)\<close> reads its argument as console markup: a tag \<^verbatim>\<open>[style]\<close> opens a
  style, \<^verbatim>\<open>[/style]\<close> or \<^verbatim>\<open>[/]\<close> closes one, a backslash before a tag escapes it, and a
  code \<^verbatim>\<open>:name:\<close> of the library's emoji table is replaced by the emoji. The program
  puts the name and the items it was given into the markup without escaping them, so
  what they contain is read as markup too.

  A line of the text is written as it is when it fits the console's width and holds no
  tab; the console folds a wider line into several and expands tabs. The width is that
  of a console whose output is not a terminal, 80 columns, as it is under the test
  runner of the repository.

  Four things the console uses are internals of the library and are parameters of the
  model: the normal form of a style name, the replacement of emoji codes, the
  evaluation of the parameters of a handler tag (\<^verbatim>\<open>[@name=...]\<close>), and the folding of a
  line that is too wide or holds a tab. Styles and colours change no character of the
  text, and they are left out. A table is kept as a structure: drawing it with box
  characters is presentation. Standard output is the sequence of lines and tables
  written.
\<close>

record rich_lib =
  normalize_style :: "string \<Rightarrow> string"
  emoji_codes :: "string \<Rightarrow> string"
  meta_ok :: "string \<Rightarrow> bool"
  wrap_text :: "string \<Rightarrow> string list"

record rich_table =
  title :: string
  columns :: "string list"
  rows :: "string list list"

datatype py_exn = MarkupError

datatype handler = Hello | Info | List_items

datatype scope = Group | Cmd handler

datatype out_item = Line string | Table_block rich_table | Help_page scope

datatype piece = Txt string | Tag string "string option"

text \<open>
  The tag pattern of the markup parser, \<^verbatim>\<open>((\\*)\[([a-z#/@][^[]*?)])\<close>, matched at the head
  of a string: any number of backslashes, an opening bracket, one character that may
  start a tag, and then the shortest run without an opening bracket that ends at a closing
  bracket. The result is the backslashes, the text of the tag and the rest of the string.
\<close>

definition tag_start :: "char \<Rightarrow> bool" where
  "tag_start c = (c \<in> set ''abcdefghijklmnopqrstuvwxyz#/@'')"

definition match_tag :: "string \<Rightarrow> (string \<times> string \<times> string) option" where
  "match_tag s =
     (case dropWhile (\<lambda>c. c = bslash) s of
        b # c # u \<Rightarrow>
          if b = CHR ''['' \<and> tag_start c then
            (case dropWhile (\<lambda>x. x \<noteq> CHR '']'' \<and> x \<noteq> CHR ''['') u of
               e # rest \<Rightarrow>
                 if e = CHR '']'' then
                   Some (takeWhile (\<lambda>c. c = bslash) s,
                         c # takeWhile (\<lambda>x. x \<noteq> CHR '']'' \<and> x \<noteq> CHR ''['') u, rest)
                 else None
             | [] \<Rightarrow> None)
          else None
      | _ \<Rightarrow> None)"

text \<open>\<^verbatim>\<open>tag_text.partition("=")\<close>: the name of the tag, and its parameters when there is an
  equals sign.\<close>

definition mk_tag :: "string \<Rightarrow> piece" where
  "mk_tag t =
     (case dropWhile (\<lambda>c. c \<noteq> CHR ''='') t of
        [] \<Rightarrow> Tag t None
      | _ # ps \<Rightarrow> Tag (takeWhile (\<lambda>c. c \<noteq> CHR ''='') t) (Some ps))"

definition flush :: "string \<Rightarrow> piece list" where
  "flush acc = (if acc = [] then [] else [Txt acc])"

text \<open>
  \<^verbatim>\<open>_parse\<close>: the pieces of a markup string, from left to right. \<^verbatim>\<open>acc\<close> is the text since
  the last match. Backslashes before a tag stand for half as many literal ones, and an odd
  one makes the tag plain text.
\<close>

function parse :: "string \<Rightarrow> string \<Rightarrow> piece list" where
  "parse acc [] = flush acc"
| "parse acc (c # s) =
     (case match_tag (c # s) of
        None \<Rightarrow> parse (acc @ [c]) s
      | Some (esc, t, rest) \<Rightarrow>
          flush acc
          @ (if 0 < length esc div 2 then [Txt (replicate (length esc div 2) bslash)] else [])
          @ (if length esc mod 2 = 1 then [Txt (CHR ''['' # t @ '']'')] else [mk_tag t])
          @ parse [] rest)"
  by pat_completeness auto
termination
proof -
  have d: "length (dropWhile P xs) \<le> length xs" for P and xs :: string
    by (induction xs) auto
  have shorter: "length rest < length s"
    if m: "match_tag s = Some (esc, t, rest)" for s esc t rest
  proof -
    from m obtain b c u e where
      s: "dropWhile (\<lambda>c. c = bslash) s = b # c # u" and
      u: "dropWhile (\<lambda>x. x \<noteq> CHR '']'' \<and> x \<noteq> CHR ''['') u = e # rest"
      by (auto simp: match_tag_def split: list.splits if_splits)
    have "length rest < length u"
      using d [of "\<lambda>x. x \<noteq> CHR '']'' \<and> x \<noteq> CHR ''[''" u] u by simp
    moreover have "length u < length s"
      using d [of "\<lambda>c. c = bslash" s] s by simp
    ultimately show ?thesis by simp
  qed
  show ?thesis
    by (relation "measure (\<lambda>(acc, s). length s)") (auto dest: shorter)
qed

text \<open>\<^verbatim>\<open>plain_text.replace("\\[", "[")\<close>.\<close>

fun unescape :: "string \<Rightarrow> string" where
  "unescape (a # b # s) =
     (if a = bslash \<and> b = CHR ''['' then b # unescape s else a # unescape (b # s))"
| "unescape s = s"

text \<open>A text that has fewer than two colons holds no emoji code; the library's
  replacement is asked about the others.\<close>

definition emoji_replace :: "rich_lib \<Rightarrow> string \<Rightarrow> string" where
  "emoji_replace r t = (if length (filter (\<lambda>c. c = CHR '':'') t) < 2 then t else emoji_codes r t)"

text \<open>Text added to the console's text loses the control codes bell, backspace,
  vertical tab, form feed and carriage return.\<close>

definition strip_control_codes :: "string \<Rightarrow> string" where
  "strip_control_codes t = filter (\<lambda>c. (of_char c :: nat) \<notin> {7, 8, 11, 12, 13}) t"

text \<open>\<^verbatim>\<open>pop_style\<close>: the innermost open tag of that name leaves the stack (its head is the
  innermost tag).\<close>

fun pop_style ::
  "string \<Rightarrow> (string \<times> string option) list
     \<Rightarrow> ((string \<times> string option) \<times> (string \<times> string option) list) option" where
  "pop_style n [] = None"
| "pop_style n (t # ts) =
     (if fst t = n then Some (t, ts)
      else map_option (\<lambda>(x, rest). (x, t # rest)) (pop_style n ts))"

definition pop_top ::
  "(string \<times> string option) list
     \<Rightarrow> ((string \<times> string option) \<times> (string \<times> string option) list) option" where
  "pop_top st = (case st of [] \<Rightarrow> None | t # ts \<Rightarrow> Some (t, ts))"

text \<open>Closing a handler tag evaluates its parameters; a failure is a markup error.\<close>

definition close_fails :: "rich_lib \<Rightarrow> string \<times> string option \<Rightarrow> bool" where
  "close_fails r open_tag =
     (take 1 (fst open_tag) = ''@'' \<and>
      (case snd open_tag of None \<Rightarrow> False | Some ps \<Rightarrow> ps \<noteq> [] \<and> \<not> meta_ok r ps))"

text \<open>
  \<^verbatim>\<open>render\<close>: the text of a markup string. A closing tag that names no open tag, or that
  has nothing to close, raises \<^verbatim>\<open>MarkupError\<close>; tags left open are closed at the end.
\<close>

fun render_pieces ::
  "rich_lib \<Rightarrow> piece list \<Rightarrow> (string \<times> string option) list \<Rightarrow> string \<Rightarrow> py_exn + string" where
  "render_pieces r [] st txt = Inr txt"
| "render_pieces r (Txt t # ps) st txt =
     render_pieces r ps st (txt @ strip_control_codes (emoji_replace r (unescape t)))"
| "render_pieces r (Tag name params # ps) st txt =
     (if take 1 name = ''/'' then
        (case (if py_strip (drop 1 name) \<noteq> []
               then pop_style (normalize_style r (py_strip (drop 1 name))) st
               else pop_top st) of
           None \<Rightarrow> Inl MarkupError
         | Some (open_tag, st') \<Rightarrow>
             if close_fails r open_tag then Inl MarkupError else render_pieces r ps st' txt)
      else render_pieces r ps ((normalize_style r name, params) # st) txt)"

definition render :: "rich_lib \<Rightarrow> string \<Rightarrow> py_exn + string" where
  "render r markup =
     (if CHR ''['' \<notin> set markup then Inr (strip_control_codes (emoji_replace r markup))
      else render_pieces r (parse [] markup) [] [])"

fun split_lines :: "string \<Rightarrow> string list" where
  "split_lines [] = [[]]"
| "split_lines (c # s) =
     (if c = newline then [] # split_lines s
      else (case split_lines s of [] \<Rightarrow> [[c]] | l # ls \<Rightarrow> (c # l) # ls))"

definition console_width :: nat where
  "console_width = 80"

text \<open>The output lines of one line of text. A character below 256 takes at most one
  column, so a line of at most 80 characters fits.\<close>

definition layout :: "rich_lib \<Rightarrow> string \<Rightarrow> string list" where
  "layout r t = (if length t \<le> console_width \<and> CHR 0x09 \<notin> set t then [t] else wrap_text r t)"

text \<open>\<^verbatim>\<open>console.print(markup)\<close>: the lines written, or the exception raised before anything
  is written.\<close>

definition console_print :: "rich_lib \<Rightarrow> string \<Rightarrow> py_exn + out_item list" where
  "console_print r markup =
     (case render r markup of
        Inl e \<Rightarrow> Inl e
      | Inr t \<Rightarrow> Inr (map Line (concat (map (layout r) (split_lines t)))))"

text \<open>
  What a command body has done when it stops: the output so far, and the exception that
  stopped it, if one did. \<^verbatim>\<open>emit\<close> is one \<^verbatim>\<open>console.print\<close>; \<^verbatim>\<open>and_then\<close> is sequencing.
\<close>

type_synonym run = "out_item list \<times> py_exn option"

definition emit :: "rich_lib \<Rightarrow> string \<Rightarrow> run" where
  "emit r markup = (case console_print r markup of Inl e \<Rightarrow> ([], Some e) | Inr ls \<Rightarrow> (ls, None))"

definition and_then :: "run \<Rightarrow> run \<Rightarrow> run" where
  "and_then a b = (case snd a of Some e \<Rightarrow> a | None \<Rightarrow> (fst a @ fst b, snd b))"

subsection \<open>The command bodies\<close>

text \<open>\<^verbatim>\<open>hello(name, count)\<close>: \<^verbatim>\<open>range(count)\<close> has \<^verbatim>\<open>count\<close> elements, none when \<^verbatim>\<open>count\<close> is
  negative.\<close>

fun hello_loop :: "rich_lib \<Rightarrow> string \<Rightarrow> nat \<Rightarrow> run" where
  "hello_loop r name 0 = ([], None)"
| "hello_loop r name (Suc k) =
     and_then (emit r (''[bold green]Hello, '' @ name @ ''![/bold green]'')) (hello_loop r name k)"

definition hello :: "rich_lib \<Rightarrow> string \<Rightarrow> int \<Rightarrow> run" where
  "hello r name count = hello_loop r name (nat count)"

text \<open>\<^verbatim>\<open>info()\<close>: the table is built from constants and printed. Its title and cells hold
  no markup and no emoji code, so the console shows them as they are.\<close>

definition info_table :: rich_table where
  "info_table =
     \<lparr>title = ''{{PROJECT_NAME}} Info'',
      columns = [''Property'', ''Value''],
      rows = [[''Name'', ''{{PROJECT_NAME}}''],
              [''Version'', ''0.1.0''],
              [''Description'', ''A CLI tool built with Python'']]\<rparr>"

definition info :: run where
  "info = ([Table_block info_table], None)"

text \<open>\<^verbatim>\<open>list_items(items)\<close>: \<^verbatim>\<open>enumerate(items, 1)\<close> counts from one.\<close>

fun print_items :: "rich_lib \<Rightarrow> nat \<Rightarrow> string list \<Rightarrow> run" where
  "print_items r i [] = ([], None)"
| "print_items r i (item # items) =
     and_then (emit r (''  '' @ str_nat i @ ''. '' @ item)) (print_items r (Suc i) items)"

definition list_items :: "rich_lib \<Rightarrow> string list \<Rightarrow> run" where
  "list_items r items =
     (if items = [] then emit r ''[yellow]No items provided![/yellow]''
      else and_then (emit r ''[bold]Items:[/bold]'') (print_items r 1 items))"

subsection \<open>Outcomes\<close>

text \<open>
  A usage error is click's \<^verbatim>\<open>UsageError\<close> and its subclasses: the message goes to the
  error stream after the usage line of the command it arose in, and the exit status is 2.
  An exception that escapes a command body ends the process with a traceback on the
  error stream and exit status 1. Help and version texts are written by a callback that
  then exits with status 0.
\<close>

datatype usage_error =
    No_such_option string
  | Option_requires_argument string
  | Option_takes_no_value string
  | Bad_parameter string string
  | Unexpected_extra_arguments "string list"
  | Missing_command
  | No_such_command string
  | No_args_is_help

datatype err_item = Usage scope usage_error | Traceback py_exn

record outcome =
  stdout :: "out_item list"
  stderr :: "err_item list"
  exit_code :: int
  body :: "handler option"

text \<open>
  The environment of a run: the program name click derives from the invocation, the
  console's library, the interpreter's limit on the digits of an integer string, and
  two behaviours of click that differ between its releases.
  \<^verbatim>\<open>no_args_is_error\<close>: a group called with no arguments shows its help; up to click 8.1
  it writes the help to standard output and exits with 0, from click 8.2 on it raises a
  usage error (help on the error stream, exit status 2).
  \<^verbatim>\<open>reparse_sees_args\<close>: when the command name is unknown and looks like an option, the
  group parses again before it fails; \<^verbatim>\<open>resolve_command\<close> hands that second parse either
  the context's arguments, which are empty by then (click up to 8.1), or its own
  argument list.
\<close>

record env =
  prog_name :: string
  rich :: rich_lib
  int_max_str_digits :: nat
  no_args_is_error :: bool
  reparse_sees_args :: bool

definition usage_fail :: "scope \<Rightarrow> usage_error \<Rightarrow> outcome" where
  "usage_fail sc e = \<lparr>stdout = [], stderr = [Usage sc e], exit_code = 2, body = None\<rparr>"

definition exit_help :: "scope \<Rightarrow> outcome" where
  "exit_help sc = \<lparr>stdout = [Help_page sc], stderr = [], exit_code = 0, body = None\<rparr>"

text \<open>\<^verbatim>\<open>version_option(version="0.1.0")\<close> with the default message
  \<^verbatim>\<open>%(prog)s, version %(version)s\<close>.\<close>

definition exit_version :: "env \<Rightarrow> outcome" where
  "exit_version e =
     \<lparr>stdout = [Line (prog_name e @ '', version 0.1.0'')], stderr = [], exit_code = 0,
      body = None\<rparr>"

definition no_args_help :: "env \<Rightarrow> outcome" where
  "no_args_help e =
     (if no_args_is_error e then usage_fail Group No_args_is_help else exit_help Group)"

definition finish :: "handler \<Rightarrow> run \<Rightarrow> outcome" where
  "finish h res =
     (case snd res of
        None \<Rightarrow> \<lparr>stdout = fst res, stderr = [], exit_code = 0, body = Some h\<rparr>
      | Some e \<Rightarrow> \<lparr>stdout = fst res, stderr = [Traceback e], exit_code = 1, body = Some h\<rparr>)"

subsection \<open>The option parser of click\<close>

text \<open>
  An option of the program is a flag or takes one value; all have long names only.
  \<^verbatim>\<open>_process_args_for_options\<close> reads the arguments from the left. \<^verbatim>\<open>--\<close> ends the options.
  An argument of more than one character that starts with a dash is an option: its name
  is the part before the first equals sign, and the part after it is its value. An
  option that takes a value and has none attached takes the next argument, whatever it
  is. An unknown name is an error: the name itself after two dashes, and the dash with
  the first character otherwise, since no short option exists. Any other argument is
  positional: a parser with interspersed arguments keeps it and goes on, a parser
  without (the group's) stops there. Nothing is called back before the whole vector is
  read. The result is the options in the order given, the positional arguments kept, and
  the arguments not read.
\<close>

datatype opt_kind = Flag | Takes_value

type_synonym opt_table = "(string \<times> opt_kind) list"

type_synonym given = "(string \<times> string option) list"

definition optlike :: "string \<Rightarrow> bool" where
  "optlike arg = (take 1 arg = ''-'' \<and> 1 < length arg)"

definition split_eq :: "string \<Rightarrow> string \<times> string option" where
  "split_eq arg =
     (case dropWhile (\<lambda>c. c \<noteq> CHR ''='') arg of
        [] \<Rightarrow> (arg, None)
      | _ # v \<Rightarrow> (takeWhile (\<lambda>c. c \<noteq> CHR ''='') arg, Some v))"

definition unknown_option :: "string \<Rightarrow> usage_error" where
  "unknown_option arg =
     No_such_option (if take 2 arg = ''--'' then fst (split_eq arg) else take 2 arg)"

fun process_options ::
  "opt_table \<Rightarrow> bool \<Rightarrow> string list \<Rightarrow> given \<Rightarrow> string list
     \<Rightarrow> usage_error + (given \<times> string list \<times> string list)" where
  "process_options tab isp [] ord largs = Inr (ord, largs, [])"
| "process_options tab isp (arg # rargs) ord largs =
     (if arg = ''--'' then Inr (ord, largs, rargs)
      else if optlike arg then
        (case map_of tab (fst (split_eq arg)) of
           None \<Rightarrow> Inl (unknown_option arg)
         | Some Flag \<Rightarrow>
             (case snd (split_eq arg) of
                Some v \<Rightarrow> Inl (Option_takes_no_value (fst (split_eq arg)))
              | None \<Rightarrow> process_options tab isp rargs (ord @ [(fst (split_eq arg), None)]) largs)
         | Some Takes_value \<Rightarrow>
             (case snd (split_eq arg) of
                Some v \<Rightarrow>
                  process_options tab isp rargs (ord @ [(fst (split_eq arg), Some v)]) largs
              | None \<Rightarrow>
                  (case rargs of
                     [] \<Rightarrow> Inl (Option_requires_argument (fst (split_eq arg)))
                   | v # rest \<Rightarrow>
                       process_options tab isp rest (ord @ [(fst (split_eq arg), Some v)]) largs)))
      else if isp then process_options tab isp rargs ord (largs @ [arg])
      else Inr (ord, largs, arg # rargs))"

text \<open>The value of an option that may be given more than once is the last one given.\<close>

definition last_value :: "string \<Rightarrow> given \<Rightarrow> string option" where
  "last_value name ord =
     (case filter (\<lambda>g. fst g = name) ord of [] \<Rightarrow> None | g # gs \<Rightarrow> snd (last (g # gs)))"

text \<open>
  \<^verbatim>\<open>Command.parse_args\<close> for a command: the options are read, then the parameters are
  processed, the eager ones first. The only eager option of a command is \<^verbatim>\<open>--help\<close>, which
  shows the help and exits. What is left are the options given and the positional
  arguments.
\<close>

definition command_parse ::
  "handler \<Rightarrow> opt_table \<Rightarrow> string list \<Rightarrow> outcome + (given \<times> string list)" where
  "command_parse h tab args =
     (case process_options tab True args [] [] of
        Inl e \<Rightarrow> Inl (usage_fail (Cmd h) e)
      | Inr (ord, largs, rargs) \<Rightarrow>
          if ''--help'' \<in> set (map fst ord) then Inl (exit_help (Cmd h))
          else Inr (ord, largs @ rargs))"

definition no_extra :: "handler \<Rightarrow> string list \<Rightarrow> outcome \<Rightarrow> outcome" where
  "no_extra h extra out =
     (if extra \<noteq> [] then usage_fail (Cmd h) (Unexpected_extra_arguments extra) else out)"

subsection \<open>The three commands\<close>

text \<open>
  \<^verbatim>\<open>hello\<close>: \<^verbatim>\<open>--name\<close> is a string with default \<^verbatim>\<open>World\<close>; \<^verbatim>\<open>--count\<close> has the default 1,
  which makes it an integer option: its value is converted by \<^verbatim>\<open>int\<close>, and a value that
  does not convert is a bad parameter. The conversion comes before the check for
  positional arguments, which the command does not take.
\<close>

definition hello_opts :: opt_table where
  "hello_opts = [(''--name'', Takes_value), (''--count'', Takes_value), (''--help'', Flag)]"

definition convert_count :: "env \<Rightarrow> given \<Rightarrow> usage_error + int" where
  "convert_count e ord =
     (case last_value ''--count'' ord of
        None \<Rightarrow> Inr 1
      | Some v \<Rightarrow>
          (case py_int (int_max_str_digits e) v of
             None \<Rightarrow> Inl (Bad_parameter ''--count'' v)
           | Some n \<Rightarrow> Inr n))"

definition hello_command :: "env \<Rightarrow> string list \<Rightarrow> outcome" where
  "hello_command e args =
     (case command_parse Hello hello_opts args of
        Inl out \<Rightarrow> out
      | Inr (ord, extra) \<Rightarrow>
          (case convert_count e ord of
             Inl err \<Rightarrow> usage_fail (Cmd Hello) err
           | Inr count \<Rightarrow>
               no_extra Hello extra
                 (finish Hello
                    (hello (rich e)
                       (case last_value ''--name'' ord of None \<Rightarrow> ''World'' | Some v \<Rightarrow> v)
                       count))))"

definition info_opts :: opt_table where
  "info_opts = [(''--help'', Flag)]"

definition info_command :: "env \<Rightarrow> string list \<Rightarrow> outcome" where
  "info_command e args =
     (case command_parse Info info_opts args of
        Inl out \<Rightarrow> out
      | Inr (ord, extra) \<Rightarrow> no_extra Info extra (finish Info info))"

text \<open>\<^verbatim>\<open>list-items\<close>: the argument \<^verbatim>\<open>items\<close> with \<^verbatim>\<open>nargs=-1\<close> takes every positional
  argument, and may be empty.\<close>

definition list_items_opts :: opt_table where
  "list_items_opts = [(''--help'', Flag)]"

definition list_items_command :: "env \<Rightarrow> string list \<Rightarrow> outcome" where
  "list_items_command e args =
     (case command_parse List_items list_items_opts args of
        Inl out \<Rightarrow> out
      | Inr (ord, items) \<Rightarrow> finish List_items (list_items (rich e) items))"

subsection \<open>The group\<close>

text \<open>
  The commands are registered under the names click derives from the functions: the
  function's name with underscores turned into dashes. \<^verbatim>\<open>get_command\<close> looks a name up as
  it is.
\<close>

definition commands :: "(string \<times> handler) list" where
  "commands = [(''hello'', Hello), (''info'', Info), (''list-items'', List_items)]"

definition get_command :: "string \<Rightarrow> handler option" where
  "get_command name = map_of commands name"

definition invoke_command :: "env \<Rightarrow> handler \<Rightarrow> string list \<Rightarrow> outcome" where
  "invoke_command e h args =
     (case h of
        Hello \<Rightarrow> hello_command e args
      | Info \<Rightarrow> info_command e args
      | List_items \<Rightarrow> list_items_command e args)"

text \<open>
  \<^verbatim>\<open>Group.parse_args\<close>: with no arguments the group shows its help. Otherwise its options,
  \<^verbatim>\<open>--version\<close> and \<^verbatim>\<open>--help\<close>, are read up to the first positional argument; both are
  eager flags, and the one given first is processed first: it writes its text and exits.
  The result is the outcome of an exit, or the arguments left for the command.
\<close>

definition main_opts :: opt_table where
  "main_opts = [(''--version'', Flag), (''--help'', Flag)]"

definition main_parse :: "env \<Rightarrow> string list \<Rightarrow> outcome + string list" where
  "main_parse e argv =
     (if argv = [] then Inl (no_args_help e)
      else
        (case process_options main_opts False argv [] [] of
           Inl err \<Rightarrow> Inl (usage_fail Group err)
         | Inr (ord, largs, rargs) \<Rightarrow>
             (case ord of
                [] \<Rightarrow> Inr (largs @ rargs)
              | g # gs \<Rightarrow>
                  Inl (if fst g = ''--version'' then exit_version e else exit_help Group))))"

text \<open>
  \<^verbatim>\<open>split_opt\<close>: the option prefix of a name. A name that starts with a letter or a digit
  has none; any other first character is taken as a prefix, twice if it is doubled.
\<close>

definition split_opt :: "string \<Rightarrow> string \<times> string" where
  "split_opt opt =
     (if opt \<noteq> [] \<and> py_isalnum (hd opt) then ([], opt)
      else if take 1 (drop 1 opt) = take 1 opt then (take 2 opt, drop 2 opt)
      else (take 1 opt, drop 1 opt))"

text \<open>
  \<^verbatim>\<open>resolve_command\<close> when no command has the name: a name with an option prefix makes the
  group parse again, which may exit or fail on its own; then the name is reported.
\<close>

definition no_command :: "env \<Rightarrow> string \<Rightarrow> string list \<Rightarrow> outcome" where
  "no_command e name args =
     (if fst (split_opt name) \<noteq> [] then
        (case main_parse e (if reparse_sees_args e then name # args else []) of
           Inl out \<Rightarrow> out
         | Inr rest \<Rightarrow> usage_fail Group (No_such_command name))
      else usage_fail Group (No_such_command name))"

text \<open>\<^verbatim>\<open>main\<close>: the group is parsed, the first argument left names the command, and the
  command is run on the arguments after it.\<close>

definition main :: "env \<Rightarrow> string list \<Rightarrow> outcome" where
  "main e argv =
     (case main_parse e argv of
        Inl out \<Rightarrow> out
      | Inr rest \<Rightarrow>
          (case rest of
             [] \<Rightarrow> usage_fail Group Missing_command
           | name # args \<Rightarrow>
               (case get_command name of
                  None \<Rightarrow> no_command e name args
                | Some h \<Rightarrow> invoke_command e h args)))"

subsection \<open>Environments for examples\<close>

text \<open>
  \<^verbatim>\<open>stub_rich\<close> is not the rich library: it is a library with an empty emoji table, in
  which every style name is its own normal form, the parameters of every handler tag
  evaluate and a line that is too wide is left alone. It stands in where an example
  needs a closed environment, and only in examples whose outcome is the same for every
  library: the theorems they instantiate hold for every environment. \<^verbatim>\<open>env_8_1\<close> has the
  behaviour of click up to 8.1, \<^verbatim>\<open>env_no_args_error\<close> the one in which a group without
  arguments is an error, as from click 8.2 on; both have the interpreter's default limit
  of 4300 digits.
\<close>

definition stub_rich :: rich_lib where
  "stub_rich =
     \<lparr>normalize_style = (\<lambda>s. s), emoji_codes = (\<lambda>s. s), meta_ok = (\<lambda>s. True),
      wrap_text = (\<lambda>s. [s])\<rparr>"

definition env_8_1 :: env where
  "env_8_1 =
     \<lparr>prog_name = ''main'', rich = stub_rich, int_max_str_digits = 4300,
      no_args_is_error = False, reparse_sees_args = False\<rparr>"

definition env_no_args_error :: env where
  "env_no_args_error =
     \<lparr>prog_name = ''main'', rich = stub_rich, int_max_str_digits = 4300,
      no_args_is_error = True, reparse_sees_args = True\<rparr>"

subsection \<open>Text the console writes unchanged\<close>






section \<open>Properties\<close>

subsection \<open>Integers written by \<open>str\<close> and read by \<open>int\<close>\<close>

lemma is_digit_digit_char: "d < 10 \<Longrightarrow> is_digit (digit_char d)"
  by (simp add: is_digit_def digit_char_def)

lemma digit_val_digit_char: "d < 10 \<Longrightarrow> digit_val (digit_char d) = d"
  by (simp add: digit_val_def digit_char_def)

lemma digits_acc_append:
  "list_all is_digit ds \<Longrightarrow> is_digit d \<Longrightarrow>
   digits_acc a (ds @ [d]) = map_option (\<lambda>m. 10 * m + digit_val d) (digits_acc a ds)"
  by (induction ds arbitrary: a) auto

lemma str_nat_digits: "list_all is_digit (str_nat n) \<and> str_nat n \<noteq> []"
proof (induction n rule: str_nat.induct)
  case (1 n)
  show ?case
  proof (cases "n < 10")
    case True
    then show ?thesis by (simp add: str_nat.simps [of n] is_digit_digit_char)
  next
    case False
    with 1 show ?thesis by (simp add: str_nat.simps [of n] is_digit_digit_char)
  qed
qed

lemma py_digits_limit:
  "py_digits lim s = (if too_many_digits lim s then None else py_digits 0 s)"
  by (simp add: py_digits_def too_many_digits_def)

lemma py_digits_append:
  "list_all is_digit ds \<Longrightarrow> ds \<noteq> [] \<Longrightarrow> is_digit d \<Longrightarrow>
   py_digits 0 (ds @ [d]) = map_option (\<lambda>m. 10 * m + digit_val d) (py_digits 0 ds)"
  by (cases ds) (auto simp: py_digits_def too_many_digits_def digits_acc_append)

lemma py_digits_str_nat: "py_digits 0 (str_nat n) = Some n"
proof (induction n rule: str_nat.induct)
  case (1 n)
  show ?case
  proof (cases "n < 10")
    case True
    then show ?thesis
      by (simp add: str_nat.simps [of n] py_digits_def too_many_digits_def is_digit_digit_char
          digit_val_digit_char)
  next
    case False
    then have "py_digits 0 (str_nat (n div 10)) = Some (n div 10)" using 1 by simp
    then show ?thesis
      using False str_nat_digits [of "n div 10"]
      by (simp add: str_nat.simps [of n] py_digits_append is_digit_digit_char digit_val_digit_char)
  qed
qed

lemma not_space_digit: "is_digit c \<Longrightarrow> \<not> int_space c"
  by (auto simp: is_digit_def int_space_def)

lemma int_strip_id:
  "s \<noteq> [] \<Longrightarrow> \<not> int_space (hd s) \<Longrightarrow> \<not> int_space (last s) \<Longrightarrow> int_strip s = s"
proof -
  assume a: "s \<noteq> []" "\<not> int_space (hd s)" "\<not> int_space (last s)"
  then have "dropWhile int_space s = s" by (cases s) auto
  moreover have "dropWhile int_space (rev s) = rev s"
    using a by (cases "rev s") (auto simp: hd_rev)
  ultimately show ?thesis by (simp add: int_strip_def)
qed

lemma str_nat_ends: "is_digit (hd (str_nat n)) \<and> is_digit (last (str_nat n))"
  using str_nat_digits [of n] by (cases "str_nat n") (auto simp: list_all_iff)

lemma digit_not_sign: "is_digit c \<Longrightarrow> c \<noteq> CHR ''-'' \<and> c \<noteq> CHR ''+''"
  by (auto simp: is_digit_def)

lemma digits_of_str_int:
  "too_many_digits lim (str_int i) = too_many_digits lim (str_nat (nat \<bar>i\<bar>))"
proof -
  have "\<not> is_digit (CHR ''-'')" by (simp add: is_digit_def)
  then show ?thesis by (cases "i < 0") (simp_all add: too_many_digits_def str_int_def abs_if)
qed

lemma py_int_str_int:
  "py_int lim (str_int i) = (if too_many_digits lim (str_int i) then None else Some i)"
proof (cases "i < 0")
  case True
  have m: "\<not> int_space (CHR ''-'')" by (simp add: int_space_def)
  have "int_strip (CHR ''-'' # str_nat (nat (- i))) = CHR ''-'' # str_nat (nat (- i))"
    using str_nat_ends [of "nat (- i)"] str_nat_digits [of "nat (- i)"] m
    by (intro int_strip_id) (auto simp: not_space_digit)
  then show ?thesis using True digits_of_str_int [of lim i]
    by (simp add: py_int_def str_int_def py_digits_limit [of lim] py_digits_str_nat)
next
  case False
  have s: "int_strip (str_nat (nat i)) = str_nat (nat i)"
    using str_nat_ends [of "nat i"] str_nat_digits [of "nat i"]
    by (intro int_strip_id) (auto simp: not_space_digit)
  obtain c cs where c: "str_nat (nat i) = c # cs"
    using str_nat_digits [of "nat i"] by (cases "str_nat (nat i)") auto
  have "is_digit c" using str_nat_ends [of "nat i"] c by simp
  then have "c \<noteq> CHR ''-''" "c \<noteq> CHR ''+''" using digit_not_sign by auto
  then show ?thesis using False s c py_digits_str_nat [of "nat i"] digits_of_str_int [of lim i]
    by (simp add: py_int_def str_int_def py_digits_limit [of lim])
qed

lemma digit_char_0: "digit_char 0 = CHR ''0''"
  by code_simp

lemma digit_char_1: "digit_char 1 = CHR ''1''"
  by code_simp

lemma str_nat_1: "str_nat (Suc 0) = ''1''"
  by code_simp

lemma str_nat_power_10: "str_nat (10 ^ k) = CHR ''1'' # replicate k (CHR ''0'')"
proof (induction k)
  case 0
  show ?case by (simp add: str_nat_1)
next
  case (Suc k)
  have ge: "\<not> (10::nat) * 10 ^ k < 10" by simp
  have "str_nat (10 * 10 ^ k) =
      str_nat ((10 * 10 ^ k) div 10) @ [digit_char ((10 * 10 ^ k) mod 10)]"
    using ge by (subst str_nat.simps) simp
  then have "str_nat (10 * 10 ^ k) = str_nat (10 ^ k) @ [CHR ''0'']"
    by (simp add: digit_char_0)
  with Suc show ?case by (simp add: replicate_append_same)
qed

lemma digits_power_10: "length (filter is_digit (str_nat (10 ^ k))) = Suc k"
proof -
  have d: "is_digit (CHR ''0'')" "is_digit (CHR ''1'')" by (simp_all add: is_digit_def)
  have "filter is_digit (replicate k (CHR ''0'')) = replicate k (CHR ''0'')"
    using d by (induction k) simp_all
  with d show ?thesis by (simp add: str_nat_power_10)
qed

lemma nat_power_10: "nat \<bar>(10::int) ^ k\<bar> = 10 ^ k" and nat_minus_power_10: "nat \<bar>- ((10::int) ^ k)\<bar> = 10 ^ k"
  by (simp_all add: nat_power_eq)

lemma too_many_power_10:
  "0 < lim \<Longrightarrow> 640 < Suc k \<Longrightarrow> lim < Suc k \<Longrightarrow>
   too_many_digits lim (str_int (10 ^ k)) \<and> too_many_digits lim (str_int (- (10 ^ k)))"
  unfolding digits_of_str_int nat_power_10 nat_minus_power_10
  by (simp add: too_many_digits_def digits_power_10)

lemma digits_acc_bad:
  "c \<in> set cs \<Longrightarrow> \<not> is_digit c \<Longrightarrow> c \<noteq> CHR ''_'' \<Longrightarrow> digits_acc a cs = None"
proof (induction a cs rule: digits_acc.induct)
  case (1 a)
  then show ?case by simp
next
  case (2 a x xs)
  show ?case
  proof (cases "is_digit x")
    case True
    with "2.prems" have "c \<in> set xs" by auto
    with 2 True show ?thesis by simp
  next
    case nd: False
    show ?thesis
    proof (cases "x = CHR ''_''")
      case False
      with nd show ?thesis by simp
    next
      case u: True
      show ?thesis
      proof (cases xs)
        case Nil
        with nd u show ?thesis by simp
      next
        case (Cons d ds)
        show ?thesis
        proof (cases "is_digit d")
          case False
          with nd u Cons show ?thesis by simp
        next
          case True
          with "2.prems" u Cons have "c \<in> set ds" by auto
          with "2.IH"(2) [OF nd u Cons True] "2.prems" have "digits_acc (10 * a + digit_val d) ds = None"
            by simp
          with nd u Cons True show ?thesis by simp
        qed
      qed
    qed
  qed
qed

lemma py_digits_bad:
  "c \<in> set cs \<Longrightarrow> \<not> is_digit c \<Longrightarrow> c \<noteq> CHR ''_'' \<Longrightarrow> py_digits lim cs = None"
proof -
  assume a: "c \<in> set cs" "\<not> is_digit c" "c \<noteq> CHR ''_''"
  then obtain x xs where x: "cs = x # xs" by (cases cs) auto
  show ?thesis
  proof (cases "x = c")
    case True
    with a x show ?thesis by (simp add: py_digits_def)
  next
    case False
    with a x have "c \<in> set xs" by simp
    from digits_acc_bad [OF this a(2,3)] x show ?thesis by (simp add: py_digits_def)
  qed
qed

lemma dropWhile_keeps: "c \<in> set s \<Longrightarrow> \<not> P c \<Longrightarrow> c \<in> set (dropWhile P s)"
  by (induction s) auto

lemma int_strip_keeps: "c \<in> set s \<Longrightarrow> \<not> int_space c \<Longrightarrow> c \<in> set (int_strip s)"
proof -
  assume a: "c \<in> set s" "\<not> int_space c"
  then have "c \<in> set (rev (dropWhile int_space s))" by (simp add: dropWhile_keeps)
  with a have "c \<in> set (dropWhile int_space (rev (dropWhile int_space s)))"
    by (intro dropWhile_keeps)
  then show ?thesis by (simp add: int_strip_def)
qed

lemma py_int_bad_char:
  "c \<in> set s \<Longrightarrow> \<not> is_digit c \<Longrightarrow> c \<noteq> CHR ''_'' \<Longrightarrow> c \<noteq> CHR ''+'' \<Longrightarrow> c \<noteq> CHR ''-'' \<Longrightarrow>
   \<not> int_space c \<Longrightarrow> py_int lim s = None"
proof -
  assume a: "c \<in> set s" and d: "\<not> is_digit c" and u: "c \<noteq> CHR ''_''"
    and p: "c \<noteq> CHR ''+''" and m: "c \<noteq> CHR ''-''" and sp: "\<not> int_space c"
  from a sp have "c \<in> set (int_strip s)" by (rule int_strip_keeps)
  then obtain x xs where x: "int_strip s = x # xs" and cx: "c \<in> set (x # xs)"
    by (cases "int_strip s") auto
  show ?thesis
  proof (cases "x = CHR ''-'' \<or> x = CHR ''+''")
    case True
    with cx p m have "c \<in> set xs" by auto
    then have "py_digits lim xs = None" using d u by (rule py_digits_bad)
    with True x show ?thesis unfolding py_int_def by auto
  next
    case False
    from cx d u have "py_digits lim (x # xs) = None" by (rule py_digits_bad)
    with False x show ?thesis unfolding py_int_def by simp
  qed
qed

subsection \<open>Reaching a command\<close>

lemma emit_hello_world:
  "emit r ''[bold green]Hello, World![/bold green]'' = ([Line ''Hello, World!''], None)"
  by (simp add: emit_def console_print_def render_def match_tag_def tag_start_def bslash_def
      flush_def mk_tag_def emoji_replace_def strip_control_codes_def py_strip_def py_isspace_def
      newline_def pop_top_def close_fails_def layout_def console_width_def)

lemma main_hello: "main e (''hello'' # args) = hello_command e args"
  by (simp add: main_def main_parse_def main_opts_def optlike_def get_command_def commands_def
      invoke_command_def)

lemma main_info: "main e (''info'' # args) = info_command e args"
  by (simp add: main_def main_parse_def main_opts_def optlike_def get_command_def commands_def
      invoke_command_def)

lemma main_list_items: "main e (''list-items'' # args) = list_items_command e args"
  by (simp add: main_def main_parse_def main_opts_def optlike_def get_command_def commands_def
      invoke_command_def)

subsection \<open>The greeting\<close>

lemma hello_loop_world:
  "hello_loop r ''World'' k = (replicate k (Line ''Hello, World!''), None)"
  by (induction k) (simp_all add: emit_hello_world and_then_def)

lemma parse_count:
  "process_options hello_opts True [''--count'', v] [] [] = Inr ([(''--count'', Some v)], [], [])"
  by (simp add: hello_opts_def optlike_def split_eq_def)

lemma parse_count_eq:
  "process_options hello_opts True [''--count='' @ v] [] [] = Inr ([(''--count'', Some v)], [], [])"
  by (simp add: hello_opts_def optlike_def split_eq_def)

lemma hello_count_value:
  "process_options hello_opts True args [] [] = Inr ([(''--count'', Some v)], [], []) \<Longrightarrow>
   hello_command e args =
     (case py_int (int_max_str_digits e) v of
        None \<Rightarrow> usage_fail (Cmd Hello) (Bad_parameter ''--count'' v)
      | Some n \<Rightarrow> finish Hello (hello (rich e) ''World'' n))"
  by (simp add: hello_command_def convert_count_def command_parse_def last_value_def no_extra_def
      split: option.splits)

lemma hello_count_both:
  "main e [''hello'', ''--count'', v] =
     (case py_int (int_max_str_digits e) v of
        None \<Rightarrow> usage_fail (Cmd Hello) (Bad_parameter ''--count'' v)
      | Some n \<Rightarrow> finish Hello (hello (rich e) ''World'' n)) \<and>
   main e [''hello'', ''--count='' @ v] =
     (case py_int (int_max_str_digits e) v of
        None \<Rightarrow> usage_fail (Cmd Hello) (Bad_parameter ''--count'' v)
      | Some n \<Rightarrow> finish Hello (hello (rich e) ''World'' n))"
  using hello_count_value [OF parse_count [of v], of e]
    hello_count_value [OF parse_count_eq [of v], of e]
  by (simp add: main_hello)

text \<open>
  C2. For every integer \<open>n \<ge> 0\<close> whose decimal digits are not more than the interpreter
  accepts in an integer string (4300 by default), the greeting command with
  \<^verbatim>\<open>--count n\<close> and no name, the count written as \<^verbatim>\<open>str(n)\<close> in the next argument or after
  an equals sign, writes exactly \<open>n\<close> lines, each \<^verbatim>\<open>Hello, World!\<close>, writes nothing to the
  error stream and exits with 0; for \<open>n = 0\<close> it writes no line. The command is
  registered as \<^verbatim>\<open>hello\<close>.
\<close>

theorem hello_count_lines:
  "0 \<le> n \<Longrightarrow> \<not> too_many_digits (int_max_str_digits e) (str_int n) \<Longrightarrow>
   main e [''hello'', ''--count'', str_int n] =
     \<lparr>stdout = replicate (nat n) (Line ''Hello, World!''), stderr = [], exit_code = 0,
      body = Some Hello\<rparr> \<and>
   main e [''hello'', ''--count='' @ str_int n] =
     \<lparr>stdout = replicate (nat n) (Line ''Hello, World!''), stderr = [], exit_code = 0,
      body = Some Hello\<rparr>"
  using hello_count_both [of e "str_int n"]
  by (simp add: py_int_str_int hello_def hello_loop_world finish_def)

lemma str_int_3: "str_int 3 = ''3''"
  by code_simp

theorem hello_count_lines_witness:
  "(0::int) \<le> 3 \<and> \<not> too_many_digits (int_max_str_digits env_8_1) (str_int 3) \<and>
   main env_8_1 [''hello'', ''--count'', ''3''] =
     \<lparr>stdout = [Line ''Hello, World!'', Line ''Hello, World!'', Line ''Hello, World!''],
      stderr = [], exit_code = 0, body = Some Hello\<rparr>"
proof -
  have t: "\<not> too_many_digits (int_max_str_digits env_8_1) (str_int 3)"
    by (simp add: str_int_3 too_many_digits_def)
  from hello_count_lines [of 3 env_8_1] t show ?thesis
    by (simp add: str_int_3 numeral_3_eq_3)
qed

text \<open>A count with more digits than the limit is refused by \<^verbatim>\<open>int\<close>, whatever its sign:
  with the default limit, the count \<open>10 ^ 4300\<close>, of 4301 digits, is a bad parameter.\<close>

lemma hello_count_refused:
  "too_many_digits (int_max_str_digits e) (str_int n) \<Longrightarrow>
   main e [''hello'', ''--count'', str_int n] =
     \<lparr>stdout = [], stderr = [Usage (Cmd Hello) (Bad_parameter ''--count'' (str_int n))],
      exit_code = 2, body = None\<rparr>"
  using hello_count_both [of e "str_int n"]
  by (simp add: py_int_str_int usage_fail_def)

lemma limit_env_8_1: "int_max_str_digits env_8_1 = 4300"
  by (simp add: env_8_1_def)

lemma too_many_env_8_1:
  "too_many_digits (int_max_str_digits env_8_1) (str_int (10 ^ 4300)) \<and>
   too_many_digits (int_max_str_digits env_8_1) (str_int (- (10 ^ 4300)))"
  unfolding limit_env_8_1 by (rule too_many_power_10) simp_all

theorem hello_count_limit_counterexample:
  "main env_8_1 [''hello'', ''--count'', str_int (10 ^ 4300)] =
     \<lparr>stdout = [],
      stderr = [Usage (Cmd Hello) (Bad_parameter ''--count'' (str_int (10 ^ 4300)))],
      exit_code = 2, body = None\<rparr>"
  by (rule hello_count_refused) (rule conjunct1 [OF too_many_env_8_1])

text \<open>
  C3. For every string \<open>s\<close> that \<^verbatim>\<open>int\<close> does not accept, the greeting command with
  \<^verbatim>\<open>--count\<close> set to \<open>s\<close> fails while its parameters are processed: the error stream gets
  the usage error for the bad value of \<^verbatim>\<open>--count\<close>, the exit status is 2, nothing is
  written to standard output and the body of the command is not entered. Among these
  strings are, by \<^verbatim>\<open>py_int_bad_char\<close>, all that hold a character other than a digit, an
  underscore, a sign and the white space \<^verbatim>\<open>int\<close> skips.
\<close>

theorem hello_bad_count:
  "py_int (int_max_str_digits e) s = None \<Longrightarrow>
   main e [''hello'', ''--count'', s] =
     \<lparr>stdout = [], stderr = [Usage (Cmd Hello) (Bad_parameter ''--count'' s)], exit_code = 2,
      body = None\<rparr> \<and>
   main e [''hello'', ''--count='' @ s] =
     \<lparr>stdout = [], stderr = [Usage (Cmd Hello) (Bad_parameter ''--count'' s)], exit_code = 2,
      body = None\<rparr>"
  using hello_count_both [of e s] by (simp add: usage_fail_def)

theorem hello_bad_count_witness:
  "py_int (int_max_str_digits env_8_1) ''abc'' = None \<and>
   main env_8_1 [''hello'', ''--count'', ''abc''] =
     \<lparr>stdout = [], stderr = [Usage (Cmd Hello) (Bad_parameter ''--count'' ''abc'')],
      exit_code = 2, body = None\<rparr> \<and>
   py_int (int_max_str_digits env_8_1) [CHR ''2'', CHR 0x1F] = None \<and>
   main env_8_1 [''hello'', ''--count'', [CHR ''2'', CHR 0x1F]] =
     \<lparr>stdout = [], stderr = [Usage (Cmd Hello) (Bad_parameter ''--count'' [CHR ''2'', CHR 0x1F])],
      exit_code = 2, body = None\<rparr>"
proof -
  have a: "py_int (int_max_str_digits env_8_1) ''abc'' = None"
    by (rule py_int_bad_char [of "CHR ''a''"]) (simp_all add: is_digit_def int_space_def)
  have b: "py_int (int_max_str_digits env_8_1) [CHR ''2'', CHR 0x1F] = None"
    by (rule py_int_bad_char [of "CHR 0x1F"]) (simp_all add: is_digit_def int_space_def)
  from hello_bad_count [OF a] hello_bad_count [OF b] a b show ?thesis by simp
qed

text \<open>
  C10. For every integer \<open>n < 0\<close> whose decimal digits are not more than the interpreter
  accepts in an integer string, the greeting command with \<^verbatim>\<open>--count n\<close> is accepted: the
  value converts, the body runs, no line is written and the exit status is 0. The
  parser takes the argument after \<^verbatim>\<open>--count\<close> as its value although it starts with a
  dash, and no check bounds the count from below.
\<close>

theorem hello_negative_count:
  "n < 0 \<Longrightarrow> \<not> too_many_digits (int_max_str_digits e) (str_int n) \<Longrightarrow>
   main e [''hello'', ''--count'', str_int n] =
     \<lparr>stdout = [], stderr = [], exit_code = 0, body = Some Hello\<rparr> \<and>
   main e [''hello'', ''--count='' @ str_int n] =
     \<lparr>stdout = [], stderr = [], exit_code = 0, body = Some Hello\<rparr>"
  using hello_count_both [of e "str_int n"]
  by (simp add: py_int_str_int hello_def finish_def)

lemma str_int_minus_5: "str_int (- 5) = ''-5''"
  by code_simp

theorem hello_negative_count_witness:
  "(- 5 :: int) < 0 \<and> \<not> too_many_digits (int_max_str_digits env_8_1) (str_int (- 5)) \<and>
   main env_8_1 [''hello'', ''--count'', ''-5''] =
     \<lparr>stdout = [], stderr = [], exit_code = 0, body = Some Hello\<rparr>"
proof -
  have t: "\<not> too_many_digits (int_max_str_digits env_8_1) (str_int (- 5))"
    by (simp add: str_int_minus_5 too_many_digits_def)
  from hello_negative_count [of "- 5" env_8_1] t show ?thesis
    by (simp add: str_int_minus_5)
qed

theorem hello_negative_limit_counterexample:
  "main env_8_1 [''hello'', ''--count'', str_int (- (10 ^ 4300))] =
     \<lparr>stdout = [],
      stderr = [Usage (Cmd Hello) (Bad_parameter ''--count'' (str_int (- (10 ^ 4300))))],
      exit_code = 2, body = None\<rparr>"
  by (rule hello_count_refused) (rule conjunct2 [OF too_many_env_8_1])

subsection \<open>The list of items\<close>

lemma emit_no_items:
  "emit r ''[yellow]No items provided![/yellow]'' = ([Line ''No items provided!''], None)"
  by (simp add: emit_def console_print_def render_def match_tag_def tag_start_def bslash_def
      flush_def mk_tag_def emoji_replace_def strip_control_codes_def py_strip_def py_isspace_def
      newline_def pop_top_def close_fails_def layout_def console_width_def)

text \<open>
  C6. \<^verbatim>\<open>list-items\<close> with no argument writes exactly one line, \<^verbatim>\<open>No items provided!\<close>,
  with no header and no item line, and exits with 0.
\<close>

theorem list_items_none:
  "main e [''list-items''] =
     \<lparr>stdout = [Line ''No items provided!''], stderr = [], exit_code = 0,
      body = Some List_items\<rparr>"
  by (simp add: main_list_items list_items_command_def command_parse_def list_items_def
      emit_no_items finish_def)

subsection \<open>The information table\<close>

text \<open>
  C9. \<^verbatim>\<open>info\<close> with no argument exits with 0 and prints one table: its two columns are
  \<^verbatim>\<open>Property\<close> and \<^verbatim>\<open>Value\<close>, its three rows are Name, Version and Description, and the
  value of the Name row is the project name token as it stands in the source.
\<close>

theorem info_table_shown:
  "main e [''info''] =
     \<lparr>stdout = [Table_block info_table], stderr = [], exit_code = 0, body = Some Info\<rparr> \<and>
   columns info_table = [''Property'', ''Value''] \<and>
   rows info_table =
     [[''Name'', ''{{PROJECT_NAME}}''], [''Version'', ''0.1.0''],
      [''Description'', ''A CLI tool built with Python'']] \<and>
   length (rows info_table) = 3 \<and>
   map hd (rows info_table) = [''Name'', ''Version'', ''Description''] \<and>
   ''{{PROJECT_NAME}}'' \<in> set (concat (rows info_table))"
  by (simp add: main_info info_command_def command_parse_def no_extra_def info_def finish_def
      info_table_def)

subsection \<open>The dispatcher\<close>

lemma get_command_iff:
  "get_command name = Some h \<longleftrightarrow>
     (name = ''hello'' \<and> h = Hello) \<or> (name = ''info'' \<and> h = Info) \<or>
     (name = ''list-items'' \<and> h = List_items)"
  by (auto simp: get_command_def commands_def)

lemma known_not_optlike: "get_command name = Some h \<Longrightarrow> \<not> optlike name \<and> name \<noteq> ''--''"
  by (auto simp: get_command_iff optlike_def)

lemma main_parse_positional:
  "\<not> optlike name \<Longrightarrow> name \<noteq> ''--'' \<Longrightarrow> main_parse e (name # args) = Inr (name # args)"
  by (simp add: main_parse_def)

lemma main_known:
  "get_command name = Some h \<Longrightarrow> main e (name # args) = invoke_command e h args"
  using known_not_optlike [of name h] by (simp add: main_def main_parse_positional)

lemma body_usage_fail: "body (usage_fail sc err) = None"
  by (simp add: usage_fail_def)

lemma body_exit_help: "body (exit_help sc) = None"
  by (simp add: exit_help_def)

lemma body_exit_version: "body (exit_version e) = None"
  by (simp add: exit_version_def)

lemma body_finish: "body (finish h res) = Some h"
  by (simp add: finish_def split: option.splits)

lemma main_parse_exit: "main_parse e argv = Inl out \<Longrightarrow> body out = None"
  unfolding main_parse_def no_args_help_def
  by (auto simp: body_usage_fail body_exit_help body_exit_version
      split: if_splits sum.splits list.splits)

lemma command_parse_exit: "command_parse h tab args = Inl out \<Longrightarrow> body out = None"
  unfolding command_parse_def
  by (auto simp: body_usage_fail body_exit_help split: sum.splits if_splits)


lemma body_invoke: "body (invoke_command e h args) = Some h' \<Longrightarrow> h' = h"
proof (cases h)
  case Hello
  assume "body (invoke_command e h args) = Some h'"
  with Hello show ?thesis
    unfolding invoke_command_def hello_command_def convert_count_def no_extra_def
    by (auto simp: body_usage_fail body_finish
        split: sum.splits option.splits if_splits dest: command_parse_exit)
next
  case Info
  assume "body (invoke_command e h args) = Some h'"
  with Info show ?thesis
    unfolding invoke_command_def info_command_def no_extra_def
    by (auto simp: body_usage_fail body_finish
        split: sum.splits option.splits if_splits dest: command_parse_exit)
next
  case List_items
  assume "body (invoke_command e h args) = Some h'"
  with List_items show ?thesis
    unfolding invoke_command_def list_items_command_def
    by (auto simp: body_usage_fail body_finish
        split: sum.splits option.splits if_splits dest: command_parse_exit)
qed

lemma body_no_command: "body (no_command e name args) = None"
  unfolding no_command_def
  by (auto simp: body_usage_fail split: sum.splits dest: main_parse_exit)


lemma process_options_order:
  "process_options tab isp rargs ord largs = Inr (ord', largs', rargs') \<Longrightarrow> ord \<noteq> [] \<Longrightarrow> ord' \<noteq> []"
proof (induction tab isp rargs ord largs rule: process_options.induct)
  case (1 tab isp ord largs)
  then show ?case by simp
next
  case (2 tab isp arg rargs ord largs)
  show ?case
  proof (cases "arg = ''--''")
    case True
    with "2.prems" show ?thesis by simp
  next
    case dd: False
    show ?thesis
    proof (cases "optlike arg")
      case False
      with dd "2.prems" "2.IH" show ?thesis
        by (cases isp) auto
    next
      case ol: True
      show ?thesis
      proof (cases "map_of tab (fst (split_eq arg))")
        case None
        with dd ol "2.prems" show ?thesis by simp
      next
        case (Some k)
        show ?thesis
        proof (cases k)
          case Flag
          with dd ol Some "2.prems" "2.IH" show ?thesis
            by (cases "snd (split_eq arg)") auto
        next
          case Takes_value
          show ?thesis
          proof (cases "snd (split_eq arg)")
            case (Some v)
            with dd ol \<open>map_of tab (fst (split_eq arg)) = Some k\<close> Takes_value "2.prems" "2.IH"
            show ?thesis by auto
          next
            case None
            with dd ol \<open>map_of tab (fst (split_eq arg)) = Some k\<close> Takes_value "2.prems" "2.IH"
            show ?thesis by (cases rargs) auto
          qed
        qed
      qed
    qed
  qed
qed


lemma main_parse_option_first:
  "optlike x \<Longrightarrow> x \<noteq> ''--'' \<Longrightarrow>
   process_options main_opts False (x # xs) [] [] = Inr (ord, la, ra) \<Longrightarrow> ord \<noteq> []"
proof -
  assume ol: "optlike x" and dd: "x \<noteq> ''--''"
    and p: "process_options main_opts False (x # xs) [] [] = Inr (ord, la, ra)"
  show ?thesis
  proof (cases "map_of main_opts (fst (split_eq x))")
    case None
    with ol dd p show ?thesis by simp
  next
    case (Some k)
    then have k: "k = Flag"
      by (auto simp: main_opts_def split: if_splits)
    show ?thesis
    proof (cases "snd (split_eq x)")
      case (Some v)
      with ol dd p k \<open>map_of main_opts (fst (split_eq x)) = Some k\<close> show ?thesis by simp
    next
      case None
      with ol dd p k \<open>map_of main_opts (fst (split_eq x)) = Some k\<close>
      have "process_options main_opts False xs [(fst (split_eq x), None)] [] = Inr (ord, la, ra)"
        by simp
      then show ?thesis by (rule process_options_order) simp
    qed
  qed
qed

lemma main_parse_rest:
  "main_parse e argv = Inr rest \<Longrightarrow> argv = rest \<or> argv = ''--'' # rest"
proof -
  assume a: "main_parse e argv = Inr rest"
  then obtain x xs where argv: "argv = x # xs"
    by (cases argv) (auto simp: main_parse_def)
  show ?thesis
  proof (cases "x = ''--''")
    case True
    with a argv show ?thesis by (simp add: main_parse_def)
  next
    case dd: False
    show ?thesis
    proof (cases "optlike x")
      case False
      with a argv dd show ?thesis by (simp add: main_parse_def)
    next
      case True
      show ?thesis
      proof (cases "process_options main_opts False (x # xs) [] []")
        case (Inl err)
        with a argv show ?thesis by (simp add: main_parse_def)
      next
        case (Inr r)
        obtain ord la ra where r: "r = (ord, la, ra)" by (cases r) auto
        have "process_options main_opts False (x # xs) [] [] = Inr (ord, la, ra)"
          unfolding Inr r ..
        then have "ord \<noteq> []" by (rule main_parse_option_first [OF True dd])
        with a argv Inr r show ?thesis by (cases ord) (simp_all add: main_parse_def)
      qed
    qed
  qed
qed

lemma body_main:
  "body (main e argv) = Some h \<Longrightarrow>
   \<exists>name args. (argv = name # args \<or> argv = ''--'' # name # args) \<and> get_command name = Some h"
proof -
  assume b: "body (main e argv) = Some h"
  then obtain rest where r: "main_parse e argv = Inr rest"
    by (cases "main_parse e argv") (auto simp: main_def dest: main_parse_exit)
  with b obtain name args where rest: "rest = name # args"
    by (cases rest) (auto simp: main_def body_usage_fail)
  with b r obtain h' where g: "get_command name = Some h'"
    by (cases "get_command name") (auto simp: main_def body_no_command)
  with b r rest have "h = h'"
    by (auto simp: main_def dest: body_invoke)
  with g rest main_parse_rest [OF r] show ?thesis by auto
qed

text \<open>
  C1. The dispatcher finds the command by looking the name up as it is among the names
  \<^verbatim>\<open>hello\<close>, \<^verbatim>\<open>info\<close> and \<^verbatim>\<open>list-items\<close>: each of the three, as the first argument, hands the
  arguments after it to its command, and whenever a command body is entered, the first
  positional argument (the first argument, or the one after a leading \<^verbatim>\<open>--\<close>) is the name
  of that command. The greeting command is registered as \<^verbatim>\<open>hello\<close>, the name of its
  function, and \<^verbatim>\<open>greet\<close> names no command.
\<close>

theorem dispatch_by_name:
  "(get_command name = Some h \<longleftrightarrow>
      (name = ''hello'' \<and> h = Hello) \<or> (name = ''info'' \<and> h = Info) \<or>
      (name = ''list-items'' \<and> h = List_items)) \<and>
   (get_command name = Some h \<longrightarrow> main e (name # args) = invoke_command e h args) \<and>
   (body (main e argv) = Some h' \<longrightarrow>
      (\<exists>n as. (argv = n # as \<or> argv = ''--'' # n # as) \<and> get_command n = Some h'))"
  using get_command_iff [of name h] main_known [of name h e args] body_main [of e argv h']
  by blast

theorem dispatch_by_name_witness:
  "get_command ''hello'' = Some Hello \<and>
   main env_8_1 [''hello''] = invoke_command env_8_1 Hello [] \<and>
   body (main env_8_1 [''hello'']) = Some Hello \<and>
   (\<exists>n as. ([''hello''] = n # as \<or> [''hello''] = ''--'' # n # as) \<and> get_command n = Some Hello)"
proof -
  have g: "get_command ''hello'' = Some Hello"
    by (simp add: get_command_def commands_def)
  have b: "body (main env_8_1 [''hello'']) = Some Hello"
    by (simp add: main_hello hello_command_def convert_count_def command_parse_def last_value_def no_extra_def
        body_finish)
  from dispatch_by_name [of "''hello''" Hello env_8_1 "[]" "[''hello'']" Hello] g b
  show ?thesis by blast
qed

text \<open>The name \<^verbatim>\<open>greet\<close> selects nothing: it is reported as an unknown command, while
  \<^verbatim>\<open>hello\<close>, a name outside the claimed set, enters the greeting.\<close>

theorem greet_counterexample:
  "get_command ''greet'' = None \<and>
   main env_8_1 [''greet''] =
     \<lparr>stdout = [], stderr = [Usage Group (No_such_command ''greet'')], exit_code = 2,
      body = None\<rparr> \<and>
   body (main env_8_1 [''hello'']) = Some Hello"
proof -
  have g: "get_command ''greet'' = None"
    by (simp add: get_command_def commands_def)
  have m: "main env_8_1 [''greet''] =
     \<lparr>stdout = [], stderr = [Usage Group (No_such_command ''greet'')], exit_code = 2,
      body = None\<rparr>"
    by (simp add: g main_def main_parse_def optlike_def no_command_def split_opt_def
        py_isalnum_def usage_fail_def)
  have b: "body (main env_8_1 [''hello'']) = Some Hello"
    by (simp add: main_hello hello_command_def convert_count_def command_parse_def last_value_def no_extra_def
        body_finish)
  from g m b show ?thesis by simp
qed

subsection \<open>Unknown commands and the bare invocation\<close>

lemma unknown_alnum:
  "name \<noteq> [] \<Longrightarrow> py_isalnum (hd name) \<Longrightarrow> get_command name = None \<Longrightarrow>
   main e (name # args) = usage_fail Group (No_such_command name)"
proof -
  assume n: "name \<noteq> []" and a: "py_isalnum (hd name)" and g: "get_command name = None"
  from n a have "hd name \<noteq> CHR ''-''" by (auto simp: py_isalnum_def)
  with n have "\<not> optlike name" "name \<noteq> ''--''"
    by (cases name; auto simp: optlike_def)+
  then have "main_parse e (name # args) = Inr (name # args)" by (rule main_parse_positional)
  with n a g show ?thesis
    by (simp add: main_def no_command_def split_opt_def)
qed

lemma unknown_positional:
  "no_args_is_error e \<Longrightarrow> \<not> optlike name \<Longrightarrow> name \<noteq> ''--'' \<Longrightarrow> get_command name = None \<Longrightarrow>
   main e (name # args) = usage_fail Group (No_such_command name) \<or>
   main e (name # args) = usage_fail Group No_args_is_help"
proof -
  assume ne: "no_args_is_error e" and o: "\<not> optlike name" and d: "name \<noteq> ''--''"
    and g: "get_command name = None"
  have p: "main_parse e (name # args) = Inr (name # args)" using o d by (rule main_parse_positional)
  have "main_parse e [] = Inl (usage_fail Group No_args_is_help)"
    using ne by (simp add: main_parse_def no_args_help_def)
  with p g show ?thesis
    by (simp add: main_def no_command_def)
qed

text \<open>
  C8. An invocation whose first argument names no command and starts with a letter or a
  digit writes the usage error for the unknown command to the error stream and exits
  with status 2, entering no command body. The bare invocation enters no command body
  and shows the group's help: as a usage error, on the error stream with exit status 2,
  where click treats the missing arguments as an error (from click 8.2 on), and on
  standard output with exit status 0 otherwise (click up to 8.1). Where the missing
  arguments are an error, every first argument that is not an option and names no
  command ends in a usage error with exit status 2, with nothing on standard output and
  no command body entered.
\<close>

theorem unknown_command_fails:
  "(name \<noteq> [] \<and> py_isalnum (hd name) \<and> get_command name = None \<longrightarrow>
      main e (name # args) =
        \<lparr>stdout = [], stderr = [Usage Group (No_such_command name)], exit_code = 2,
         body = None\<rparr>) \<and>
   (no_args_is_error e \<and> \<not> optlike name \<and> name \<noteq> ''--'' \<and> get_command name = None \<longrightarrow>
      stdout (main e (name # args)) = [] \<and>
      stderr (main e (name # args)) \<in>
        {[Usage Group (No_such_command name)], [Usage Group No_args_is_help]} \<and>
      exit_code (main e (name # args)) = 2 \<and> body (main e (name # args)) = None) \<and>
   main e [] =
     (if no_args_is_error e
      then \<lparr>stdout = [], stderr = [Usage Group No_args_is_help], exit_code = 2, body = None\<rparr>
      else \<lparr>stdout = [Help_page Group], stderr = [], exit_code = 0, body = None\<rparr>)"
proof -
  have 1: "name \<noteq> [] \<and> py_isalnum (hd name) \<and> get_command name = None \<longrightarrow>
      main e (name # args) =
        \<lparr>stdout = [], stderr = [Usage Group (No_such_command name)], exit_code = 2,
         body = None\<rparr>"
    using unknown_alnum [of name e args] by (simp add: usage_fail_def)
  have 2: "no_args_is_error e \<and> \<not> optlike name \<and> name \<noteq> ''--'' \<and> get_command name = None \<longrightarrow>
      stdout (main e (name # args)) = [] \<and>
      stderr (main e (name # args)) \<in>
        {[Usage Group (No_such_command name)], [Usage Group No_args_is_help]} \<and>
      exit_code (main e (name # args)) = 2 \<and> body (main e (name # args)) = None"
    using unknown_positional [of e name args] by (auto simp: usage_fail_def)
  have 3: "main e [] =
     (if no_args_is_error e
      then \<lparr>stdout = [], stderr = [Usage Group No_args_is_help], exit_code = 2, body = None\<rparr>
      else \<lparr>stdout = [Help_page Group], stderr = [], exit_code = 0, body = None\<rparr>)"
    by (simp add: main_def main_parse_def no_args_help_def usage_fail_def exit_help_def)
  from 1 2 3 show ?thesis by blast
qed

theorem unknown_command_fails_witness:
  "(''frobnicate'' \<noteq> [] \<and> py_isalnum (hd ''frobnicate'') \<and> get_command ''frobnicate'' = None) \<and>
   main env_no_args_error [''frobnicate'', ''x''] =
     \<lparr>stdout = [], stderr = [Usage Group (No_such_command ''frobnicate'')], exit_code = 2,
      body = None\<rparr> \<and>
   (no_args_is_error env_no_args_error \<and> \<not> optlike ''.x'' \<and> ''.x'' \<noteq> ''--'' \<and> get_command ''.x'' = None) \<and>
   exit_code (main env_no_args_error [''.x'']) = 2 \<and> body (main env_no_args_error [''.x'']) = None \<and>
   main env_no_args_error [] =
     \<lparr>stdout = [], stderr = [Usage Group No_args_is_help], exit_code = 2, body = None\<rparr>"
proof -
  have a: "''frobnicate'' \<noteq> [] \<and> py_isalnum (hd ''frobnicate'') \<and> get_command ''frobnicate'' = None"
    by (simp add: py_isalnum_def get_command_def commands_def)
  have b: "no_args_is_error env_no_args_error \<and> \<not> optlike ''.x'' \<and> ''.x'' \<noteq> ''--'' \<and> get_command ''.x'' = None"
    by (simp add: env_no_args_error_def optlike_def get_command_def commands_def)
  have c: "no_args_is_error env_no_args_error" by (simp add: env_no_args_error_def)
  from unknown_command_fails [of "''frobnicate''" env_no_args_error "[''x'']"] a
    unknown_command_fails [of "''.x''" env_no_args_error "[]"] b c
  show ?thesis by (simp del: hd_Cons_tl)
qed

text \<open>With click up to 8.1 the bare invocation exits with status 0.\<close>

theorem bare_invocation_counterexample:
  "main env_8_1 [] = \<lparr>stdout = [Help_page Group], stderr = [], exit_code = 0, body = None\<rparr>"
  by (simp add: main_def main_parse_def no_args_help_def exit_help_def env_8_1_def)

subsection \<open>The version option\<close>

lemma main_opts_flags:
  "set opts \<subseteq> {''--version'', ''--help''} \<Longrightarrow>
   tail = [] \<or> \<not> optlike (hd tail) \<or> hd tail = ''--'' \<Longrightarrow>
   \<exists>ra. process_options main_opts False (opts @ tail) ord [] =
     Inr (ord @ map (\<lambda>opt. (opt, None)) opts, [], ra)"
proof (induction opts arbitrary: ord)
  case Nil
  show ?case
  proof (cases tail)
    case Nil
    then show ?thesis by simp
  next
    case (Cons t ts)
    with Nil.prems(2) show ?thesis by auto
  qed
next
  case (Cons opt opts)
  from Cons.prems(1) have o: "opt = ''--version'' \<or> opt = ''--help''" by simp
  from Cons.prems(1) have s: "set opts \<subseteq> {''--version'', ''--help''}" by simp
  from Cons.IH [OF s Cons.prems(2), of "ord @ [(opt, None)]"]
  obtain ra where ra: "process_options main_opts False (opts @ tail) (ord @ [(opt, None)]) [] =
     Inr ((ord @ [(opt, None)]) @ map (\<lambda>opt. (opt, None)) opts, [], ra)" by blast
  from o have "process_options main_opts False ((opt # opts) @ tail) ord [] =
     process_options main_opts False (opts @ tail) (ord @ [(opt, None)]) []"
    by (auto simp: main_opts_def optlike_def split_eq_def)
  with ra show ?case by simp
qed

text \<open>
  C7. When \<^verbatim>\<open>--version\<close> is the first argument and every argument after it, up to the
  first one that is not an option or to the end, is \<^verbatim>\<open>--version\<close> or \<^verbatim>\<open>--help\<close>, the program
  writes the program name followed by \<^verbatim>\<open>, version 0.1.0\<close> and exits with status 0 without
  entering a command body, whatever the arguments from the first positional one on are.
\<close>

theorem version_first:
  "set opts \<subseteq> {''--version'', ''--help''} \<Longrightarrow>
   tail = [] \<or> \<not> optlike (hd tail) \<or> hd tail = ''--'' \<Longrightarrow>
   main e (''--version'' # opts @ tail) =
     \<lparr>stdout = [Line (prog_name e @ '', version 0.1.0'')], stderr = [], exit_code = 0,
      body = None\<rparr>"
proof -
  assume a: "set opts \<subseteq> {''--version'', ''--help''}"
    and b: "tail = [] \<or> \<not> optlike (hd tail) \<or> hd tail = ''--''"
  from a have "set (''--version'' # opts) \<subseteq> {''--version'', ''--help''}" by simp
  from main_opts_flags [OF this b, of "[]"]
  obtain ra where "process_options main_opts False (''--version'' # opts @ tail) [] [] =
     Inr ((''--version'', None) # map (\<lambda>opt. (opt, None)) opts, [], ra)" by auto
  then show ?thesis
    by (simp add: main_def main_parse_def exit_version_def)
qed

theorem version_first_witness:
  "set [''--help''] \<subseteq> {''--version'', ''--help''} \<and>
   \<not> optlike (hd [''hello'', ''--count'', ''abc'']) \<and>
   main env_8_1 [''--version'', ''--help'', ''hello'', ''--count'', ''abc''] =
     \<lparr>stdout = [Line ''main, version 0.1.0''], stderr = [], exit_code = 0, body = None\<rparr>"
proof -
  have a: "set [''--help''] \<subseteq> {''--version'', ''--help''}" by simp
  have b: "\<not> optlike (hd [''hello'', ''--count'', ''abc''])" by (simp add: optlike_def)
  from version_first [OF a, of "[''hello'', ''--count'', ''abc'']" env_8_1] a b
  show ?thesis by (simp add: env_8_1_def)
qed

text \<open>The group's options are all read before any of them acts, and of the eager ones the
  first given acts: an unknown option after \<^verbatim>\<open>--version\<close> is a usage error, and \<^verbatim>\<open>--help\<close>
  before it shows the help.\<close>

theorem version_counterexample:
  "main env_8_1 [''--version'', ''--bogus''] =
     \<lparr>stdout = [], stderr = [Usage Group (No_such_option ''--bogus'')], exit_code = 2,
      body = None\<rparr> \<and>
   main env_8_1 [''--help'', ''--version''] =
     \<lparr>stdout = [Help_page Group], stderr = [], exit_code = 0, body = None\<rparr>"
  by (simp add: main_def main_parse_def main_opts_def optlike_def split_eq_def unknown_option_def
      usage_fail_def exit_help_def)

subsection \<open>Names in the markup\<close>

lemma parse_name:
  "process_options hello_opts True [''--name'', v] [] [] = Inr ([(''--name'', Some v)], [], [])"
  by (simp add: hello_opts_def optlike_def split_eq_def)

lemma hello_name_value:
  "main e [''hello'', ''--name'', v] = finish Hello (hello (rich e) v 1)"
  using parse_name [of v]
  by (simp add: main_hello hello_command_def convert_count_def command_parse_def last_value_def
      no_extra_def)

lemma emit_bold_name:
  "emit r ''[bold green]Hello, [bold]![/bold green]'' = ([Line ''Hello, !''], None)"
  by (simp add: emit_def console_print_def render_def match_tag_def tag_start_def bslash_def
      flush_def mk_tag_def emoji_replace_def strip_control_codes_def py_strip_def py_isspace_def
      newline_def pop_top_def close_fails_def layout_def console_width_def)

lemma emit_close_name:
  "emit r ''[bold green]Hello, [/]![/bold green]'' = ([], Some MarkupError)"
  by (simp add: emit_def console_print_def render_def match_tag_def tag_start_def bslash_def
      flush_def mk_tag_def emoji_replace_def strip_control_codes_def py_strip_def py_isspace_def
      newline_def pop_top_def close_fails_def layout_def console_width_def)

text \<open>
  C4. The greeting is to show the name it was given, \<^verbatim>\<open>Hello, s!\<close>, on one line and exit
  with status 0. The body puts the name into the markup string without escaping it, so a
  name that reads as markup is not shown: the name \<^verbatim>\<open>[bold]\<close> is taken for a style tag and
  the line is \<^verbatim>\<open>Hello, !\<close>; the name \<^verbatim>\<open>[/]\<close> closes the style of the greeting, the closing
  tag of the greeting then matches nothing, and the command ends in an uncaught
  \<^verbatim>\<open>MarkupError\<close> with exit status 1 and no line written.
\<close>

theorem hello_markup_bug:
  "main env_8_1 [''hello'', ''--name'', ''[bold]''] =
     \<lparr>stdout = [Line ''Hello, !''], stderr = [], exit_code = 0, body = Some Hello\<rparr> \<and>
   main env_8_1 [''hello'', ''--name'', ''[/]''] =
     \<lparr>stdout = [], stderr = [Traceback MarkupError], exit_code = 1, body = Some Hello\<rparr>"
  by (simp add: hello_name_value hello_def and_then_def emit_bold_name emit_close_name finish_def)

subsection \<open>Items in the list\<close>



















end
